theory Spec2Isabelle
  imports Complex_Main
begin

section \<open>Streaming filters of \<^verbatim>\<open>autopilot/transform/timeseries.py\<close>\<close>

text \<open>
  A shallow embedding of the two stream transforms of the module: \<^verbatim>\<open>Filter_IIR\<close> and
  \<^verbatim>\<open>Kalman\<close>. Python floats are idealised as real numbers, two-dimensional NumPy
  arrays are arrays with an explicit shape, and every exception of the source is a value of
  the type \<open>error\<close>. A method that mutates its object returns the outcome together with the
  object as the call leaves it, also when the call raises.
\<close>

subsection \<open>Exceptions\<close>

datatype error =
    NameError string
  | AttributeError string
  | ValueError
  | LinAlgError
  | IndexError

definition bindE :: "error + 'a \<Rightarrow> ('a \<Rightarrow> error + 'b) \<Rightarrow> error + 'b" where
  "bindE m f = (case m of Inl e \<Rightarrow> Inl e | Inr v \<Rightarrow> f v)"

text \<open>
  \<open>tryS r self k\<close>: the value of an expression \<open>r\<close> evaluated while the object is \<open>self\<close>;
  when the expression raises, the call ends with the object as it is at that point.
\<close>

definition tryS :: "error + 'a \<Rightarrow> 's \<Rightarrow> ('a \<Rightarrow> (error + 'b) \<times> 's) \<Rightarrow> (error + 'b) \<times> 's" where
  "tryS r self k = (case r of Inl e \<Rightarrow> (Inl e, self) | Inr v \<Rightarrow> k v)"

subsection \<open>Name resolution\<close>

text \<open>
  The names bound at the top level of the module: its imports
  (\<^verbatim>\<open>from collections import deque\<close>, \<^verbatim>\<open>from autopilot.transform.transforms import Transform\<close>,
  \<^verbatim>\<open>from scipy import signal\<close>, \<^verbatim>\<open>import numpy as np\<close>, \<^verbatim>\<open>from copy import copy, deepcopy\<close>)
  and its two classes.
\<close>

definition module_globals :: "string list" where
  "module_globals =
     [''deque'', ''Transform'', ''signal'', ''np'', ''copy'', ''deepcopy'',
      ''Filter_IIR'', ''Kalman'']"

text \<open>The built-in functions and constants of Python 3 (exception classes left out).\<close>

definition py_builtins :: "string list" where
  "py_builtins =
     [''abs'', ''aiter'', ''all'', ''anext'', ''any'', ''ascii'', ''bin'', ''bool'',
      ''breakpoint'', ''bytearray'', ''bytes'', ''callable'', ''chr'', ''classmethod'',
      ''compile'', ''complex'', ''delattr'', ''dict'', ''dir'', ''divmod'', ''enumerate'',
      ''eval'', ''exec'', ''filter'', ''float'', ''format'', ''frozenset'', ''getattr'',
      ''globals'', ''hasattr'', ''hash'', ''help'', ''hex'', ''id'', ''input'', ''int'',
      ''isinstance'', ''issubclass'', ''iter'', ''len'', ''list'', ''locals'', ''map'',
      ''max'', ''memoryview'', ''min'', ''next'', ''object'', ''oct'', ''open'', ''ord'',
      ''pow'', ''print'', ''property'', ''range'', ''repr'', ''reversed'', ''round'',
      ''set'', ''setattr'', ''slice'', ''sorted'', ''staticmethod'', ''str'', ''sum'',
      ''super'', ''tuple'', ''type'', ''vars'', ''zip'', ''__import__'',
      ''None'', ''True'', ''False'', ''Ellipsis'', ''NotImplemented'', ''__debug__'']"

text \<open>
  A name that is not local to a method is looked up among the module's globals and then
  among the built-ins; a name found in neither raises \<^verbatim>\<open>NameError\<close>.
\<close>

definition lookup_global :: "string \<Rightarrow> error + unit" where
  "lookup_global name =
     (if name \<in> set module_globals \<or> name \<in> set py_builtins then Inr ()
      else Inl (NameError name))"

text \<open>
  The attributes of the \<^verbatim>\<open>numpy\<close> module that the file may refer to; NumPy defines
  \<^verbatim>\<open>reshape\<close> and no \<^verbatim>\<open>reshape_z\<close>. An attribute the module does not have raises
  \<^verbatim>\<open>AttributeError\<close>.
\<close>

definition numpy_namespace :: "string list" where
  "numpy_namespace =
     [''array'', ''asarray'', ''atleast_2d'', ''copyto'', ''dot'', ''eye'', ''isscalar'',
      ''linalg'', ''ndarray'', ''ones'', ''reshape'', ''zeros'']"

definition np_getattr :: "string \<Rightarrow> error + unit" where
  "np_getattr name =
     (if name \<in> set numpy_namespace then Inr () else Inl (AttributeError name))"

subsection \<open>Two-dimensional arrays\<close>

text \<open>
  An array carries its shape, so that an array with no rows still has a number of columns,
  as \<^verbatim>\<open>np.zeros((0, 3))\<close> has.
\<close>

datatype 'a ndarray = NDArray (nrows: nat) (ncols: nat) (rows: "'a list list")

definition tabulate :: "nat \<Rightarrow> nat \<Rightarrow> (nat \<Rightarrow> nat \<Rightarrow> 'a) \<Rightarrow> 'a ndarray" where
  "tabulate r c f = NDArray r c (map (\<lambda>i. map (f i) [0..<c]) [0..<r])"

definition entry :: "'a ndarray \<Rightarrow> nat \<Rightarrow> nat \<Rightarrow> 'a" where
  "entry A i j = rows A ! i ! j"

definition well_shaped :: "'a ndarray \<Rightarrow> bool" where
  "well_shaped A \<longleftrightarrow>
     length (rows A) = nrows A \<and> list_all (\<lambda>row. length row = ncols A) (rows A)"

definition has_shape :: "'a ndarray \<Rightarrow> nat \<Rightarrow> nat \<Rightarrow> bool" where
  "has_shape A r c \<longleftrightarrow> well_shaped A \<and> nrows A = r \<and> ncols A = c"

text \<open>\<^verbatim>\<open>np.zeros((r, c))\<close> and \<^verbatim>\<open>np.eye(n)\<close>; a negative dimension raises \<^verbatim>\<open>ValueError\<close>.\<close>

definition zeros_mat :: "nat \<Rightarrow> nat \<Rightarrow> real ndarray" where
  "zeros_mat r c = tabulate r c (\<lambda>i j. 0)"

definition eye_mat :: "nat \<Rightarrow> real ndarray" where
  "eye_mat n = tabulate n n (\<lambda>i j. if i = j then 1 else 0)"

definition np_zeros :: "int \<times> int \<Rightarrow> error + real ndarray" where
  "np_zeros shape =
     (case shape of (r, c) \<Rightarrow>
        if r < 0 \<or> c < 0 then Inl ValueError else Inr (zeros_mat (nat r) (nat c)))"

definition np_eye :: "int \<Rightarrow> error + real ndarray" where
  "np_eye n = (if n < 0 then Inl ValueError else Inr (eye_mat (nat n)))"

text \<open>
  \<^verbatim>\<open>np.array([[None] * m]).T\<close>: a column of \<^verbatim>\<open>None\<close>; \<^verbatim>\<open>[None] * m\<close> is the empty list
  for a negative \<^verbatim>\<open>m\<close>.
\<close>

definition none_column :: "int \<Rightarrow> real option ndarray" where
  "none_column m = tabulate (nat m) 1 (\<lambda>i j. None)"

text \<open>The transpose \<^verbatim>\<open>A.T\<close>.\<close>

definition ndarray_T :: "'a ndarray \<Rightarrow> 'a ndarray" where
  "ndarray_T A = tabulate (ncols A) (nrows A) (\<lambda>i j. entry A j i)"

text \<open>\<^verbatim>\<open>np.dot(A, B)\<close> on two-dimensional arrays: the inner dimensions must agree.\<close>

definition mat_mul :: "real ndarray \<Rightarrow> real ndarray \<Rightarrow> real ndarray" where
  "mat_mul A B =
     tabulate (nrows A) (ncols B)
       (\<lambda>i j. sum_list (map (\<lambda>k. entry A i k * entry B k j) [0..<ncols A]))"

definition np_dot :: "real ndarray \<Rightarrow> real ndarray \<Rightarrow> error + real ndarray" where
  "np_dot A B = (if ncols A = nrows B then Inr (mat_mul A B) else Inl ValueError)"

text \<open>
  Elementwise \<^verbatim>\<open>A + B\<close> and \<^verbatim>\<open>A - B\<close> broadcast: along each axis the two lengths are
  equal or one of them is 1, and the array of length 1 is repeated.
\<close>

definition broadcast_dim :: "nat \<Rightarrow> nat \<Rightarrow> nat option" where
  "broadcast_dim a b =
     (if a = b then Some a else if a = 1 then Some b else if b = 1 then Some a else None)"

definition bentry :: "'a ndarray \<Rightarrow> nat \<Rightarrow> nat \<Rightarrow> 'a" where
  "bentry A i j = entry A (if nrows A = 1 then 0 else i) (if ncols A = 1 then 0 else j)"

definition np_binop ::
  "(real \<Rightarrow> real \<Rightarrow> real) \<Rightarrow> real ndarray \<Rightarrow> real ndarray \<Rightarrow> error + real ndarray" where
  "np_binop f A B =
     (case (broadcast_dim (nrows A) (nrows B), broadcast_dim (ncols A) (ncols B)) of
        (Some r, Some c) \<Rightarrow> Inr (tabulate r c (\<lambda>i j. f (bentry A i j) (bentry B i j)))
      | _ \<Rightarrow> Inl ValueError)"

definition mat_add :: "real ndarray \<Rightarrow> real ndarray \<Rightarrow> real ndarray" where
  "mat_add A B = tabulate (nrows A) (ncols A) (\<lambda>i j. entry A i j + entry B i j)"

definition mat_sub :: "real ndarray \<Rightarrow> real ndarray \<Rightarrow> real ndarray" where
  "mat_sub A B = tabulate (nrows A) (ncols A) (\<lambda>i j. entry A i j - entry B i j)"

definition np_add :: "real ndarray \<Rightarrow> real ndarray \<Rightarrow> error + real ndarray" where
  "np_add A B = np_binop (\<lambda>a b. a + b) A B"

definition np_sub :: "real ndarray \<Rightarrow> real ndarray \<Rightarrow> error + real ndarray" where
  "np_sub A B = np_binop (\<lambda>a b. a - b) A B"

text \<open>The product of a scalar and an array, \<^verbatim>\<open>s * A\<close> or \<^verbatim>\<open>A * s\<close>.\<close>

definition scale :: "real \<Rightarrow> real ndarray \<Rightarrow> real ndarray" where
  "scale s A = tabulate (nrows A) (ncols A) (\<lambda>i j. s * entry A i j)"

text \<open>
  \<^verbatim>\<open>np.copyto(dst, src)\<close> writes the values of \<open>src\<close>, broadcast to the shape of \<open>dst\<close>,
  into the storage of \<open>dst\<close>: the new content of \<open>dst\<close> is returned, and \<open>src\<close> shares
  nothing with it. \<open>conv\<close> is the conversion to the element type of \<open>dst\<close>.
\<close>

definition np_copyto_conv :: "('a \<Rightarrow> 'b) \<Rightarrow> 'b ndarray \<Rightarrow> 'a ndarray \<Rightarrow> error + 'b ndarray" where
  "np_copyto_conv conv dst src =
     (if (nrows src = nrows dst \<or> nrows src = 1) \<and> (ncols src = ncols dst \<or> ncols src = 1)
      then Inr (tabulate (nrows dst) (ncols dst) (\<lambda>i j. conv (bentry src i j)))
      else Inl ValueError)"

definition np_copyto :: "real ndarray \<Rightarrow> real ndarray \<Rightarrow> error + real ndarray" where
  "np_copyto dst src = np_copyto_conv (\<lambda>v. v) dst src"

text \<open>
  \<^verbatim>\<open>np.linalg.inv(A)\<close> in exact arithmetic: \<^verbatim>\<open>LinAlgError\<close> for an array that is not square
  or is singular, else the inverse, here the adjugate divided by the determinant
  (expansion along the first row).
\<close>

definition del_col :: "nat \<Rightarrow> 'a list \<Rightarrow> 'a list" where
  "del_col j row = take j row @ drop (Suc j) row"

function det :: "real list list \<Rightarrow> real" where
  "det [] = 1"
| "det (r # rs) =
     sum_list (map (\<lambda>j. (- 1) ^ j * (r ! j) * det (map (del_col j) rs)) [0..<length r])"
  by pat_completeness auto
termination
  by (relation "measure length") auto

definition minor :: "real list list \<Rightarrow> nat \<Rightarrow> nat \<Rightarrow> real list list" where
  "minor rs i j = map (del_col j) (take i rs @ drop (Suc i) rs)"

definition cofactor :: "real list list \<Rightarrow> nat \<Rightarrow> nat \<Rightarrow> real" where
  "cofactor rs i j = (- 1) ^ (i + j) * det (minor rs i j)"

definition linalg_inv :: "real ndarray \<Rightarrow> error + real ndarray" where
  "linalg_inv A =
     (if nrows A \<noteq> ncols A then Inl LinAlgError
      else if det (rows A) = 0 then Inl LinAlgError
      else Inr (tabulate (nrows A) (nrows A) (\<lambda>i j. cofactor (rows A) j i / det (rows A))))"

text \<open>
  A value that is a number or an array: \<^verbatim>\<open>np.isscalar\<close> tells them apart.
\<close>

datatype pyval = Num (the_num: real) | Arr (the_arr: "real ndarray")

fun np_isscalar :: "pyval \<Rightarrow> bool" where
  "np_isscalar (Num v) = True"
| "np_isscalar (Arr A) = False"

subsection \<open>The Kalman filter\<close>

text \<open>
  The attributes of a \<^verbatim>\<open>Kalman\<close> object, in the order in which \<^verbatim>\<open>__init__\<close> and
  \<^verbatim>\<open>_init_arrays\<close> assign them. The attributes \<^verbatim>\<open>K\<close>, \<^verbatim>\<open>y\<close>, \<^verbatim>\<open>S\<close>, \<^verbatim>\<open>SI\<close>, \<^verbatim>\<open>_I\<close> and
  \<^verbatim>\<open>_alpha_sq\<close> are the fields \<open>K_gain\<close>, \<open>y_resid\<close>, \<open>S_sys\<close>, \<open>SI_sys\<close>, \<open>I_eye\<close> and
  \<open>alpha_sq\<close>. The three cached values \<^verbatim>\<open>_log_likelihood\<close>, \<^verbatim>\<open>_likelihood\<close> and
  \<^verbatim>\<open>_mahalanobis\<close> are only ever assigned \<^verbatim>\<open>None\<close> in this module.
\<close>

record kalman =
  dim_state :: int
  dim_measurement :: int
  dim_control :: int
  x_state :: "real ndarray"
  P_cov :: "real ndarray"
  Q_proc_var :: "real ndarray"
  B_control :: "real ndarray option"
  F_state_trans :: "real ndarray"
  H_measure :: "real ndarray"
  R_measure_var :: "real ndarray"
  alpha_sq :: real
  M_proc_measure_xcor :: "real ndarray"
  z_measure :: "real option ndarray"
  K_gain :: "real ndarray"
  y_resid :: "real ndarray"
  S_sys :: "real ndarray"
  SI_sys :: "real ndarray"
  I_eye :: "real ndarray"
  x_prior :: "real ndarray"
  P_prior :: "real ndarray"
  x_post :: "real ndarray"
  P_post :: "real ndarray"
  log_likelihood :: "real option"
  likelihood :: "real option"
  mahalanobis :: "real option"

text \<open>
  Modelled from the spec: the base class \<^verbatim>\<open>Transform\<close> of
  \<^verbatim>\<open>autopilot.transform.transforms\<close> is not part of the sources at hand; the spec treats it
  as an abstract stream transform without further lifecycle hooks, so its constructor
  succeeds and adds nothing the two filters read.
\<close>

definition Transform_init :: "error + unit" where
  "Transform_init = Inr ()"

text \<open>
  \<^verbatim>\<open>Kalman._init_arrays(state)\<close> for an object whose three dimensions are set. The
  assignments run in the order of the source; the unqualified name \<^verbatim>\<open>zeros\<close> in
  \<^verbatim>\<open>self.y = zeros((self.dim_measurement, 1))\<close> is resolved as a global name before it is
  called.
\<close>

definition init_arrays :: "int \<Rightarrow> int \<Rightarrow> int \<Rightarrow> real ndarray option \<Rightarrow> error + kalman" where
  "init_arrays ds dm dc state =
     bindE (case state of Some st \<Rightarrow> Inr st | None \<Rightarrow> np_zeros (ds, 1)) (\<lambda>x.
     bindE (np_eye ds) (\<lambda>P.
     bindE (np_eye ds) (\<lambda>Q.
     bindE (np_eye ds) (\<lambda>F.
     bindE (np_zeros (dm, ds)) (\<lambda>H.
     bindE (np_eye dm) (\<lambda>R.
     bindE (np_zeros (ds, dm)) (\<lambda>M.
     bindE (np_zeros (ds, dm)) (\<lambda>K.
     bindE (lookup_global ''zeros'') (\<lambda>_.
     bindE (np_zeros (dm, 1)) (\<lambda>y.
     bindE (np_zeros (dm, dm)) (\<lambda>S.
     bindE (np_zeros (dm, dm)) (\<lambda>SI.
     bindE (np_eye ds) (\<lambda>I.
       Inr \<lparr> dim_state = ds, dim_measurement = dm, dim_control = dc,
             x_state = x, P_cov = P, Q_proc_var = Q, B_control = None,
             F_state_trans = F, H_measure = H, R_measure_var = R, alpha_sq = 1,
             M_proc_measure_xcor = M, z_measure = none_column dm,
             K_gain = K, y_resid = y, S_sys = S, SI_sys = SI, I_eye = I,
             x_prior = x, P_prior = P, x_post = x, P_post = P,
             log_likelihood = None, likelihood = None, mahalanobis = None \<rparr>)))))))))))))"

text \<open>\<^verbatim>\<open>Kalman(dim_state, dim_measurement=None, dim_control=0)\<close>.\<close>

definition Kalman_init :: "int \<Rightarrow> int option \<Rightarrow> int \<Rightarrow> error + kalman" where
  "Kalman_init ds dm dc =
     bindE Transform_init (\<lambda>_.
       init_arrays ds (case dm of None \<Rightarrow> ds | Some m \<Rightarrow> m) dc None)"

text \<open>
  An argument \<^verbatim>\<open>Q\<close> or \<^verbatim>\<open>R\<close>: \<^verbatim>\<open>None\<close> selects the stored matrix, a scalar is expanded to
  the scalar times the identity of the given dimension, an array is used as it is.
\<close>

definition resolve_noise :: "pyval option \<Rightarrow> real ndarray \<Rightarrow> int \<Rightarrow> error + real ndarray" where
  "resolve_noise arg stored n =
     (case arg of
        None \<Rightarrow> Inr stored
      | Some v \<Rightarrow>
          if np_isscalar v then bindE (np_eye n) (\<lambda>I. Inr (scale (the_num v) I))
          else Inr (the_arr v))"

text \<open>\<^verbatim>\<open>Kalman.predict(u, B, F, Q)\<close>.\<close>

definition predict ::
  "real ndarray option \<Rightarrow> real ndarray option \<Rightarrow> real ndarray option \<Rightarrow> pyval option \<Rightarrow>
   kalman \<Rightarrow> (error + unit) \<times> kalman" where
  "predict u B F Q self =
     (let B = (case B of None \<Rightarrow> B_control self | Some b \<Rightarrow> Some b);
          F = (case F of None \<Rightarrow> F_state_trans self | Some f \<Rightarrow> f)
      in
      tryS (resolve_noise Q (Q_proc_var self) (dim_state self)) self (\<lambda>Q.
      tryS (case (B, u) of
              (Some B, Some u) \<Rightarrow>
                bindE (np_dot F (x_state self)) (\<lambda>Fx.
                bindE (np_dot B u) (\<lambda>Bu. np_add Fx Bu))
            | _ \<Rightarrow> np_dot F (x_state self)) self (\<lambda>x.
      let self = self\<lparr>x_state := x\<rparr> in
      tryS (bindE (np_dot F (P_cov self)) (\<lambda>FP.
            bindE (np_dot FP (ndarray_T F)) (\<lambda>FPFt.
            np_add (scale (alpha_sq self) FPFt) Q))) self (\<lambda>P.
      let self = self\<lparr>P_cov := P\<rparr> in
      tryS (np_copyto (x_prior self) (x_state self)) self (\<lambda>xp.
      let self = self\<lparr>x_prior := xp\<rparr> in
      tryS (np_copyto (P_prior self) (P_cov self)) self (\<lambda>Pp.
      let self = self\<lparr>P_prior := Pp\<rparr> in
      (Inr (), self)))))))"

text \<open>
  \<^verbatim>\<open>Kalman.update(z, R, H)\<close>. With \<^verbatim>\<open>H\<close> left out, the source reaches for
  \<^verbatim>\<open>np.reshape_z\<close>; the attribute is looked up before its arguments are evaluated. Had the
  lookup succeeded, the measurement would be used reshaped to a column, which a
  two-dimensional \<open>z\<close> is taken to be.
\<close>

definition update ::
  "real ndarray option \<Rightarrow> pyval option \<Rightarrow> real ndarray option \<Rightarrow>
   kalman \<Rightarrow> (error + unit) \<times> kalman" where
  "update z R H self =
     (let self = self\<lparr>log_likelihood := None\<rparr>;
          self = self\<lparr>likelihood := None\<rparr>;
          self = self\<lparr>mahalanobis := None\<rparr>
      in
      case z of
        None \<Rightarrow>
          (let self = self\<lparr>z_measure := none_column (dim_measurement self)\<rparr> in
           tryS (np_copyto (x_post self) (x_state self)) self (\<lambda>xp.
           let self = self\<lparr>x_post := xp\<rparr> in
           tryS (np_copyto (P_post self) (P_cov self)) self (\<lambda>Pp.
           let self = self\<lparr>P_post := Pp\<rparr> in
           tryS (np_zeros (dim_measurement self, 1)) self (\<lambda>y0.
           let self = self\<lparr>y_resid := y0\<rparr> in
           (Inr (), self)))))
      | Some z \<Rightarrow>
          tryS (resolve_noise R (R_measure_var self) (dim_measurement self)) self (\<lambda>R.
          tryS (case H of
                  None \<Rightarrow> bindE (np_getattr ''reshape_z'') (\<lambda>_. Inr (z, H_measure self))
                | Some h \<Rightarrow> Inr (z, h)) self (\<lambda>(z, H).
          tryS (bindE (np_dot H (x_state self)) (\<lambda>Hx. np_sub z Hx)) self (\<lambda>y.
          let self = self\<lparr>y_resid := y\<rparr> in
          tryS (np_dot (P_cov self) (ndarray_T H)) self (\<lambda>PHT.
          tryS (bindE (np_dot H PHT) (\<lambda>HPHT. np_add HPHT R)) self (\<lambda>S.
          let self = self\<lparr>S_sys := S\<rparr> in
          tryS (linalg_inv (S_sys self)) self (\<lambda>SI.
          let self = self\<lparr>SI_sys := SI\<rparr> in
          tryS (np_dot PHT (SI_sys self)) self (\<lambda>K.
          let self = self\<lparr>K_gain := K\<rparr> in
          tryS (bindE (np_dot (K_gain self) (y_resid self)) (\<lambda>Ky.
                np_add (x_state self) Ky)) self (\<lambda>x.
          let self = self\<lparr>x_state := x\<rparr> in
          tryS (bindE (np_dot (K_gain self) H) (\<lambda>KH. np_sub (I_eye self) KH)) self (\<lambda>I_KH.
          tryS (bindE (np_dot I_KH (P_cov self)) (\<lambda>A.
                bindE (np_dot A (ndarray_T I_KH)) (\<lambda>APA.
                bindE (np_dot (K_gain self) R) (\<lambda>KR.
                bindE (np_dot KR (ndarray_T (K_gain self))) (\<lambda>KRK.
                np_add APA KRK))))) self (\<lambda>P.
          let self = self\<lparr>P_cov := P\<rparr> in
          tryS (np_copyto_conv Some (z_measure self) z) self (\<lambda>zm.
          let self = self\<lparr>z_measure := zm\<rparr> in
          tryS (np_copyto (x_post self) (x_state self)) self (\<lambda>xp.
          let self = self\<lparr>x_post := xp\<rparr> in
          tryS (np_copyto (P_post self) (P_cov self)) self (\<lambda>Pp.
          let self = self\<lparr>P_post := Pp\<rparr> in
          (Inr (), self)))))))))))))))"

text \<open>
  \<^verbatim>\<open>Kalman.residual_of(z)\<close> and \<^verbatim>\<open>Kalman.measurement_of_state(x)\<close>: both call the
  unqualified name \<^verbatim>\<open>dot\<close>, looked up as a global before the call. Neither assigns an
  attribute, so the object is not part of the result.
\<close>

definition residual_of :: "kalman \<Rightarrow> real ndarray \<Rightarrow> error + real ndarray" where
  "residual_of self z =
     bindE (lookup_global ''dot'') (\<lambda>_.
     bindE (np_dot (H_measure self) (x_prior self)) (\<lambda>Hx. np_sub z Hx))"

definition measurement_of_state :: "kalman \<Rightarrow> real ndarray \<Rightarrow> error + real ndarray" where
  "measurement_of_state self x =
     bindE (lookup_global ''dot'') (\<lambda>_. np_dot (H_measure self) x)"

text \<open>
  The property \<^verbatim>\<open>alpha\<close>. The getter is \<^verbatim>\<open>self._alpha_sq**.5\<close>, the square root of a
  value that is 1 or a square on every path of this module. The setter raises
  \<^verbatim>\<open>ValueError\<close> for a value that is not a scalar or is below 1.
\<close>

definition alpha_get :: "kalman \<Rightarrow> real" where
  "alpha_get self = sqrt (alpha_sq self)"

definition alpha_set :: "pyval \<Rightarrow> kalman \<Rightarrow> (error + unit) \<times> kalman" where
  "alpha_set v self =
     (if \<not> np_isscalar v \<or> the_num v < 1 then (Inl ValueError, self)
      else (Inr (), self\<lparr>alpha_sq := (the_num v) ^ 2\<rparr>))"

subsection \<open>The streaming IIR filter\<close>

text \<open>
  \<^verbatim>\<open>collections.deque(maxlen=n)\<close>: a negative bound raises \<^verbatim>\<open>ValueError\<close>; \<^verbatim>\<open>append\<close>
  adds on the right and, when the bound is exceeded, drops the leftmost item.
\<close>

record 'a deque =
  maxlen :: nat
  items :: "'a list"

definition deque_new :: "int \<Rightarrow> error + 'a deque" where
  "deque_new n = (if n < 0 then Inl ValueError else Inr \<lparr>maxlen = nat n, items = []\<rparr>)"

definition deque_append :: "'a \<Rightarrow> 'a deque \<Rightarrow> 'a deque" where
  "deque_append x d =
     (let xs = items d @ [x]
      in d\<lparr>items := (if maxlen d < length xs then tl xs else xs)\<rparr>)"

text \<open>
  The functions of \<^verbatim>\<open>scipy.signal\<close> that the filter calls are parameters of the model:
  the coefficient designer \<^verbatim>\<open>iirfilter(ftype=..., output=..., **kwargs)\<close>, the
  subscript \<^verbatim>\<open>coefs[i]\<close> on what the designer returned, and the two recursions
  \<^verbatim>\<open>lfilter(b, a, x, axis)\<close> and \<^verbatim>\<open>sosfilt(sos, x, axis)\<close>, each returning the filtered
  sequence along the first axis or raising. The coefficients are values of a type \<open>'c\<close>
  that the filter never inspects, the keyword arguments values of a type \<open>'k\<close>.
\<close>

record ('c, 'k, 'a, 'b) scipy_signal =
  iirfilter :: "string \<Rightarrow> string \<Rightarrow> 'k \<Rightarrow> error + 'c"
  getitem :: "'c \<Rightarrow> nat \<Rightarrow> error + 'c"
  lfilter :: "'c \<Rightarrow> 'c \<Rightarrow> 'a list \<Rightarrow> int \<Rightarrow> error + 'b list"
  sosfilt :: "'c \<Rightarrow> 'a list \<Rightarrow> int \<Rightarrow> error + 'b list"

record ('c, 'a) filter_iir =
  ftype :: string
  coef_type :: string
  axis :: int
  coefs :: 'c
  buffer :: "'a deque"

text \<open>The subscript \<^verbatim>\<open>[-1]\<close> on the filtered sequence.\<close>

definition last_item :: "'b list \<Rightarrow> error + 'b" where
  "last_item ys = (if ys = [] then Inl IndexError else Inr (last ys))"

text \<open>
  \<^verbatim>\<open>Filter_IIR(ftype, buffer_size, coef_type, axis, **kwargs)\<close>: the constructor hands
  \<^verbatim>\<open>coef_type\<close> to the designer as its \<^verbatim>\<open>output\<close> and checks nothing itself.
\<close>

definition Filter_IIR_init ::
  "('c, 'k, 'a, 'b) scipy_signal \<Rightarrow> string \<Rightarrow> int \<Rightarrow> string \<Rightarrow> int \<Rightarrow> 'k \<Rightarrow>
   error + ('c, 'a) filter_iir" where
  "Filter_IIR_init signal ftype0 buffer_size coef_type0 axis0 kwargs =
     bindE Transform_init (\<lambda>_.
     bindE (iirfilter signal ftype0 coef_type0 kwargs) (\<lambda>c.
     bindE (deque_new buffer_size) (\<lambda>d.
       Inr \<lparr>ftype = ftype0, coef_type = coef_type0, axis = axis0, coefs = c, buffer = d\<rparr>)))"

text \<open>
  \<^verbatim>\<open>Filter_IIR.process(input)\<close>: the sample is appended first; the result is the last
  element of the filtered buffer, or \<^verbatim>\<open>None\<close> when \<^verbatim>\<open>coef_type\<close> is neither \<^verbatim>\<open>"ba"\<close> nor
  \<^verbatim>\<open>"sos"\<close> and the method runs off its end.
\<close>

definition Filter_IIR_process ::
  "('c, 'k, 'a, 'b) scipy_signal \<Rightarrow> 'a \<Rightarrow> ('c, 'a) filter_iir \<Rightarrow>
   (error + 'b option) \<times> ('c, 'a) filter_iir" where
  "Filter_IIR_process signal input self =
     (let self = self\<lparr>buffer := deque_append input (buffer self)\<rparr> in
      if coef_type self = ''ba'' then
        tryS (bindE (getitem signal (coefs self) 0) (\<lambda>b.
              bindE (getitem signal (coefs self) 1) (\<lambda>a.
              bindE (lfilter signal b a (items (buffer self)) (axis self)) last_item)))
          self (\<lambda>v. (Inr (Some v), self))
      else if coef_type self = ''sos'' then
        tryS (bindE (sosfilt signal (coefs self) (items (buffer self)) (axis self)) last_item)
          self (\<lambda>v. (Inr (Some v), self))
      else (Inr None, self))"

text \<open>
  Feeding a sequence of samples, one \<^verbatim>\<open>process\<close> call each; the caller goes on with the
  same object whatever a call returned or raised.
\<close>

definition feed ::
  "('c, 'k, 'a, 'b) scipy_signal \<Rightarrow> 'a list \<Rightarrow> ('c, 'a) filter_iir \<Rightarrow> ('c, 'a) filter_iir" where
  "feed signal xs self = foldl (\<lambda>f x. snd (Filter_IIR_process signal x f)) self xs"

text \<open>
  The spec's recomputation: the filter of the object applied to a given window of samples,
  with no buffer involved.
\<close>

definition filter_window ::
  "('c, 'k, 'a, 'b) scipy_signal \<Rightarrow> ('c, 'a) filter_iir \<Rightarrow> 'a list \<Rightarrow> error + 'b option" where
  "filter_window signal self window =
     (if coef_type self = ''ba'' then
        bindE (getitem signal (coefs self) 0) (\<lambda>b.
        bindE (getitem signal (coefs self) 1) (\<lambda>a.
        bindE (lfilter signal b a window (axis self)) (\<lambda>ys.
        bindE (last_item ys) (\<lambda>v. Inr (Some v)))))
      else if coef_type self = ''sos'' then
        bindE (sosfilt signal (coefs self) window (axis self)) (\<lambda>ys.
        bindE (last_item ys) (\<lambda>v. Inr (Some v)))
      else Inr None)"

text \<open>
  The argument check of \<^verbatim>\<open>scipy.signal.iirfilter\<close> on \<^verbatim>\<open>output\<close>, as SciPy documents
  it: the three strings are lower-cased, and \<^verbatim>\<open>output\<close> must then be one of \<^verbatim>\<open>'ba'\<close>,
  \<^verbatim>\<open>'zpk'\<close> and \<^verbatim>\<open>'sos'\<close>, else \<^verbatim>\<open>ValueError\<close>. Everything else the designer does (its
  other checks and the synthesis of the coefficients) is the parameter \<open>design\<close>.
\<close>

definition lower_char :: "char \<Rightarrow> char" where
  "lower_char c =
     (let n = (of_char c :: nat) in if 65 \<le> n \<and> n \<le> 90 then char_of (n + 32) else c)"

definition scipy_iirfilter ::
  "(string \<Rightarrow> string \<Rightarrow> 'k \<Rightarrow> error + 'c) \<Rightarrow> string \<Rightarrow> string \<Rightarrow> 'k \<Rightarrow> error + 'c" where
  "scipy_iirfilter design ftype0 output kwargs =
     (let ft = map lower_char ftype0; out = map lower_char output
      in if out \<notin> set [''ba'', ''zpk'', ''sos''] then Inl ValueError
         else design ft out kwargs)"

text \<open>
  A reference instance of the \<^verbatim>\<open>scipy.signal\<close> functions on one-dimensional real
  sequences, to run the filter on concrete samples. Coefficients are tuples, vectors and
  tables of reals. \<^verbatim>\<open>lfilter\<close> is the direct-form recurrence
  \<open>a\<^sub>0 y\<^sub>n = b\<^sub>0 x\<^sub>n + \<dots> + b\<^sub>M x\<^bsub>n-M\<^esub> - a\<^sub>1 y\<^bsub>n-1\<^esub> - \<dots> - a\<^sub>N y\<^bsub>n-N\<^esub>\<close> from rest;
  \<^verbatim>\<open>sosfilt\<close> runs the sections \<open>[b\<^sub>0, b\<^sub>1, b\<^sub>2, a\<^sub>0, a\<^sub>1, a\<^sub>2]\<close> one after the other.
  The designer is a table with a single entry, the first-order Butterworth low-pass at
  half the Nyquist frequency, whose coefficients are rational.
\<close>

datatype coefs = Tuple "coefs list" | Vector "real list" | Table "real list list" | Scalar real

fun coefs_getitem :: "coefs \<Rightarrow> nat \<Rightarrow> error + coefs" where
  "coefs_getitem (Tuple cs) i = (if i < length cs then Inr (cs ! i) else Inl IndexError)"
| "coefs_getitem (Table rs) i = (if i < length rs then Inr (Vector (rs ! i)) else Inl IndexError)"
| "coefs_getitem (Vector v) i = (if i < length v then Inr (Scalar (v ! i)) else Inl IndexError)"
| "coefs_getitem (Scalar v) i = Inl IndexError"

fun direct_form :: "real list \<Rightarrow> real list \<Rightarrow> real list \<Rightarrow> real list \<Rightarrow> real list \<Rightarrow> real list" where
  "direct_form b a xh yh [] = []"
| "direct_form b a xh yh (x # xs) =
     (let xh' = x # xh;
          y = (sum_list (map2 (\<lambda>c v. c * v) b xh') - sum_list (map2 (\<lambda>c v. c * v) (tl a) yh)) / hd a
      in y # direct_form b a xh' (y # yh) xs)"

definition axis_ok :: "int \<Rightarrow> bool" where
  "axis_ok ax \<longleftrightarrow> ax = 0 \<or> ax = - 1"

definition ref_lfilter :: "coefs \<Rightarrow> coefs \<Rightarrow> real list \<Rightarrow> int \<Rightarrow> error + real list" where
  "ref_lfilter b a xs ax =
     (case (b, a) of
        (Vector bs, Vector as) \<Rightarrow>
          if \<not> axis_ok ax \<or> as = [] \<or> hd as = 0 then Inl ValueError
          else Inr (direct_form bs as [] [] xs)
      | _ \<Rightarrow> Inl ValueError)"

definition ref_sosfilt :: "coefs \<Rightarrow> real list \<Rightarrow> int \<Rightarrow> error + real list" where
  "ref_sosfilt sos xs ax =
     (case sos of
        Table rs \<Rightarrow>
          if \<not> axis_ok ax \<or> \<not> list_all (\<lambda>r. length r = 6 \<and> r ! 3 \<noteq> 0) rs then Inl ValueError
          else Inr (foldl (\<lambda>sig r. direct_form (take 3 r) (drop 3 r) [] [] sig) xs rs)
      | _ \<Rightarrow> Inl ValueError)"

datatype kwval = KNum real | KStr string

definition butter1_half :: "string \<Rightarrow> coefs" where
  "butter1_half out =
     (if out = ''ba'' then Tuple [Vector [1 / 2, 1 / 2], Vector [1, 0]]
      else if out = ''zpk'' then Tuple [Vector [- 1], Vector [0], Scalar (1 / 2)]
      else Table [[1 / 2, 1 / 2, 0, 1, 0, 0]])"

definition table_design :: "string \<Rightarrow> string \<Rightarrow> (string \<times> kwval) list \<Rightarrow> error + coefs" where
  "table_design ft out kwargs =
     (if ft = ''butter'' \<and> map_of kwargs ''N'' = Some (KNum 1) \<and>
         map_of kwargs ''Wn'' = Some (KNum (1 / 2)) \<and>
         map_of kwargs ''btype'' = Some (KStr ''lowpass'')
      then Inr (butter1_half out) else Inl ValueError)"

definition scipy_ref :: "(coefs, (string \<times> kwval) list, real, real) scipy_signal" where
  "scipy_ref =
     \<lparr>iirfilter = scipy_iirfilter table_design, getitem = coefs_getitem,
      lfilter = ref_lfilter, sosfilt = ref_sosfilt\<rparr>"

definition butter1_kwargs :: "(string \<times> kwval) list" where
  "butter1_kwargs = [(''N'', KNum 1), (''Wn'', KNum (1 / 2)), (''btype'', KStr ''lowpass'')]"

subsection \<open>The shapes of a filter's arrays\<close>

text \<open>
  The shapes that \<^verbatim>\<open>_init_arrays\<close> gives the arrays a \<^verbatim>\<open>predict\<close> or \<^verbatim>\<open>update\<close> call
  reads, for a state of dimension \<open>n\<close> and a measurement of dimension \<open>m\<close>, with the
  identity \<^verbatim>\<open>_I\<close> left as it was made.
\<close>

definition kalman_shapes :: "kalman \<Rightarrow> bool" where
  "kalman_shapes self \<longleftrightarrow>
     0 \<le> dim_state self \<and> 0 \<le> dim_measurement self \<and>
     (let n = nat (dim_state self); m = nat (dim_measurement self)
      in has_shape (x_state self) n 1 \<and> has_shape (P_cov self) n n \<and>
         has_shape (Q_proc_var self) n n \<and> has_shape (F_state_trans self) n n \<and>
         has_shape (H_measure self) m n \<and> has_shape (R_measure_var self) m m \<and>
         has_shape (z_measure self) m 1 \<and> I_eye self = eye_mat n \<and>
         has_shape (x_prior self) n 1 \<and> has_shape (P_prior self) n n \<and>
         has_shape (x_post self) n 1 \<and> has_shape (P_post self) n n)"

text \<open>
  Two filter objects to run the methods on. The first is the constant-velocity model of
  the spec's acceptance test (\<^verbatim>\<open>dim_state=2\<close>, \<^verbatim>\<open>F=[[1,1],[0,1]]\<close>, \<^verbatim>\<open>H=[[1,0]]\<close>) at
  position 0 with velocity 1, everything else as \<^verbatim>\<open>_init_arrays\<close> sets it. The second
  observes its two-dimensional state directly and without noise:
  \<^verbatim>\<open>F = H = I\<close>, \<^verbatim>\<open>Q = R = 0\<close>.
\<close>

definition cv_filter :: kalman where
  "cv_filter =
     \<lparr> dim_state = 2, dim_measurement = 1, dim_control = 0,
       x_state = NDArray 2 1 [[0], [1]],
       P_cov = NDArray 2 2 [[1, 0], [0, 1]],
       Q_proc_var = NDArray 2 2 [[1, 0], [0, 1]],
       B_control = None,
       F_state_trans = NDArray 2 2 [[1, 1], [0, 1]],
       H_measure = NDArray 1 2 [[1, 0]],
       R_measure_var = NDArray 1 1 [[1]],
       alpha_sq = 1,
       M_proc_measure_xcor = NDArray 2 1 [[0], [0]],
       z_measure = NDArray 1 1 [[None]],
       K_gain = NDArray 2 1 [[0], [0]],
       y_resid = NDArray 1 1 [[0]],
       S_sys = NDArray 1 1 [[0]],
       SI_sys = NDArray 1 1 [[0]],
       I_eye = NDArray 2 2 [[1, 0], [0, 1]],
       x_prior = NDArray 2 1 [[0], [1]],
       P_prior = NDArray 2 2 [[1, 0], [0, 1]],
       x_post = NDArray 2 1 [[0], [1]],
       P_post = NDArray 2 2 [[1, 0], [0, 1]],
       log_likelihood = None, likelihood = None, mahalanobis = None \<rparr>"

definition still_filter :: kalman where
  "still_filter =
     \<lparr> dim_state = 2, dim_measurement = 2, dim_control = 0,
       x_state = NDArray 2 1 [[3], [4]],
       P_cov = NDArray 2 2 [[2, 0], [0, 1]],
       Q_proc_var = NDArray 2 2 [[0, 0], [0, 0]],
       B_control = None,
       F_state_trans = NDArray 2 2 [[1, 0], [0, 1]],
       H_measure = NDArray 2 2 [[1, 0], [0, 1]],
       R_measure_var = NDArray 2 2 [[0, 0], [0, 0]],
       alpha_sq = 1,
       M_proc_measure_xcor = NDArray 2 2 [[0, 0], [0, 0]],
       z_measure = NDArray 2 1 [[None], [None]],
       K_gain = NDArray 2 2 [[0, 0], [0, 0]],
       y_resid = NDArray 2 1 [[0], [0]],
       S_sys = NDArray 2 2 [[0, 0], [0, 0]],
       SI_sys = NDArray 2 2 [[0, 0], [0, 0]],
       I_eye = NDArray 2 2 [[1, 0], [0, 1]],
       x_prior = NDArray 2 1 [[3], [4]],
       P_prior = NDArray 2 2 [[2, 0], [0, 1]],
       x_post = NDArray 2 1 [[3], [4]],
       P_post = NDArray 2 2 [[2, 0], [0, 1]],
       log_likelihood = None, likelihood = None, mahalanobis = None \<rparr>"

subsection \<open>The recursion in the spec's notation\<close>

text \<open>
  The formulas of the spec, written with the total matrix operations, to compare the
  methods with. \<open>resolved_noise\<close> is the defaulting of \<^verbatim>\<open>Q\<close> and \<^verbatim>\<open>R\<close>;
  \<open>noise_arg_ok\<close> and \<open>control_ok\<close> say that the arrays passed in have the dimensions the
  docstrings ask for; \<open>measured\<close> is a measurement as \<^verbatim>\<open>z_measure\<close> stores it.
\<close>

definition resolved_noise :: "pyval option \<Rightarrow> real ndarray \<Rightarrow> nat \<Rightarrow> real ndarray" where
  "resolved_noise arg stored n =
     (case arg of None \<Rightarrow> stored | Some (Num q) \<Rightarrow> scale q (eye_mat n) | Some (Arr A) \<Rightarrow> A)"

definition noise_arg_ok :: "pyval option \<Rightarrow> nat \<Rightarrow> bool" where
  "noise_arg_ok arg n \<longleftrightarrow>
     (case arg of Some (Arr A) \<Rightarrow> nrows A = n \<and> ncols A = n | _ \<Rightarrow> True)"

definition control_ok :: "real ndarray option \<Rightarrow> real ndarray option \<Rightarrow> nat \<Rightarrow> bool" where
  "control_ok B u n \<longleftrightarrow>
     (case (B, u) of
        (Some b, Some v) \<Rightarrow> nrows b = n \<and> ncols b = nrows v \<and> ncols v = 1
      | _ \<Rightarrow> True)"

definition predicted_state ::
  "real ndarray \<Rightarrow> real ndarray option \<Rightarrow> real ndarray option \<Rightarrow> real ndarray \<Rightarrow> real ndarray" where
  "predicted_state F B u x =
     (case (B, u) of
        (Some b, Some v) \<Rightarrow> mat_add (mat_mul F x) (mat_mul b v)
      | _ \<Rightarrow> mat_mul F x)"

definition predicted_cov ::
  "real \<Rightarrow> real ndarray \<Rightarrow> real ndarray \<Rightarrow> real ndarray \<Rightarrow> real ndarray" where
  "predicted_cov a F P Q = mat_add (scale a (mat_mul (mat_mul F P) (ndarray_T F))) Q"

definition residual :: "real ndarray \<Rightarrow> real ndarray \<Rightarrow> real ndarray \<Rightarrow> real ndarray" where
  "residual z H x = mat_sub z (mat_mul H x)"

definition innovation_cov :: "real ndarray \<Rightarrow> real ndarray \<Rightarrow> real ndarray \<Rightarrow> real ndarray" where
  "innovation_cov H P R = mat_add (mat_mul H (mat_mul P (ndarray_T H))) R"

definition kalman_gain :: "real ndarray \<Rightarrow> real ndarray \<Rightarrow> real ndarray \<Rightarrow> real ndarray" where
  "kalman_gain P H SI = mat_mul (mat_mul P (ndarray_T H)) SI"

definition joseph_cov ::
  "nat \<Rightarrow> real ndarray \<Rightarrow> real ndarray \<Rightarrow> real ndarray \<Rightarrow> real ndarray \<Rightarrow> real ndarray" where
  "joseph_cov n K H P R =
     (let I_KH = mat_sub (eye_mat n) (mat_mul K H)
      in mat_add (mat_mul (mat_mul I_KH P) (ndarray_T I_KH))
           (mat_mul (mat_mul K R) (ndarray_T K)))"

definition measured :: "real ndarray \<Rightarrow> real option ndarray" where
  "measured z = tabulate (nrows z) (ncols z) (\<lambda>i j. Some (entry z i j))"

section \<open>Properties\<close>

subsection \<open>Arrays\<close>

lemma nrows_tabulate [simp]: "nrows (tabulate r c f) = r"
  by (simp add: tabulate_def)

lemma ncols_tabulate [simp]: "ncols (tabulate r c f) = c"
  by (simp add: tabulate_def)

lemma well_shaped_tabulate [simp]: "well_shaped (tabulate r c f)"
  by (simp add: tabulate_def well_shaped_def list_all_iff)

lemma entry_tabulate [simp]: "i < r \<Longrightarrow> j < c \<Longrightarrow> entry (tabulate r c f) i j = f i j"
  by (simp add: tabulate_def entry_def)

lemma tabulate_cong:
  assumes "\<And>i j. i < r \<Longrightarrow> j < c \<Longrightarrow> f i j = g i j"
  shows "tabulate r c f = tabulate r c g"
  using assms by (simp add: tabulate_def)

lemma tabulate_entry:
  assumes "well_shaped A"
  shows "tabulate (nrows A) (ncols A) (entry A) = A"
proof -
  have len: "length (rows A) = nrows A"
    and row: "\<And>i. i < nrows A \<Longrightarrow> length (rows A ! i) = ncols A"
    using assms by (auto simp: well_shaped_def list_all_iff)
  have "map (\<lambda>i. map (\<lambda>j. rows A ! i ! j) [0..<ncols A]) [0..<nrows A] = rows A"
  proof (rule nth_equalityI)
    show "length (map (\<lambda>i. map (\<lambda>j. rows A ! i ! j) [0..<ncols A]) [0..<nrows A]) = length (rows A)"
      by (simp add: len)
  next
    fix i
    assume "i < length (map (\<lambda>i. map (\<lambda>j. rows A ! i ! j) [0..<ncols A]) [0..<nrows A])"
    then have i: "i < nrows A" by simp
    have "map (\<lambda>j. rows A ! i ! j) [0..<ncols A] = rows A ! i"
      using row [OF i] by (metis map_nth)
    then show "map (\<lambda>i. map (\<lambda>j. rows A ! i ! j) [0..<ncols A]) [0..<nrows A] ! i = rows A ! i"
      using i by simp
  qed
  moreover have "entry A = (\<lambda>i j. rows A ! i ! j)"
    by (simp add: entry_def fun_eq_iff)
  ultimately show ?thesis
    by (cases A) (simp add: tabulate_def)
qed

lemma ndarray_eqI:
  assumes "well_shaped A" "well_shaped B" "nrows A = nrows B" "ncols A = ncols B"
    and "\<And>i j. i < nrows A \<Longrightarrow> j < ncols A \<Longrightarrow> entry A i j = entry B i j"
  shows "A = B"
proof -
  have "tabulate (nrows A) (ncols A) (entry A) = tabulate (nrows A) (ncols A) (entry B)"
    by (rule tabulate_cong) (rule assms(5))
  also have "\<dots> = tabulate (nrows B) (ncols B) (entry B)"
    by (simp only: assms(3,4))
  finally show ?thesis
    by (simp only: tabulate_entry [OF assms(1)] tabulate_entry [OF assms(2)])
qed

lemma bentry_entry: "i < nrows A \<Longrightarrow> j < ncols A \<Longrightarrow> bentry A i j = entry A i j"
  by (auto simp: bentry_def)

lemma np_copyto_same_shape:
  assumes "well_shaped src" "nrows src = nrows dst" "ncols src = ncols dst"
  shows "np_copyto dst src = Inr src"
proof -
  have "tabulate (nrows src) (ncols src) (bentry src) = tabulate (nrows src) (ncols src) (entry src)"
    by (rule tabulate_cong) (simp add: bentry_entry)
  then show ?thesis
    using assms tabulate_entry [OF assms(1)] by (simp add: np_copyto_def np_copyto_conv_def)
qed

lemma broadcast_dim_same [simp]: "broadcast_dim a a = Some a"
  by (simp add: broadcast_dim_def)

lemma np_add_same_shape:
  assumes "nrows A = nrows B" "ncols A = ncols B"
  shows "np_add A B = Inr (mat_add A B)"
proof -
  have "tabulate (nrows A) (ncols A) (\<lambda>i j. bentry A i j + bentry B i j)
      = tabulate (nrows A) (ncols A) (\<lambda>i j. entry A i j + entry B i j)"
    by (rule tabulate_cong) (simp add: bentry_entry assms)
  then show ?thesis
    using assms by (simp add: np_add_def np_binop_def mat_add_def)
qed

lemma np_sub_same_shape:
  assumes "nrows A = nrows B" "ncols A = ncols B"
  shows "np_sub A B = Inr (mat_sub A B)"
proof -
  have "tabulate (nrows A) (ncols A) (\<lambda>i j. bentry A i j - bentry B i j)
      = tabulate (nrows A) (ncols A) (\<lambda>i j. entry A i j - entry B i j)"
    by (rule tabulate_cong) (simp add: bentry_entry assms)
  then show ?thesis
    using assms by (simp add: np_sub_def np_binop_def mat_sub_def)
qed

lemma np_dot_conforming: "ncols A = nrows B \<Longrightarrow> np_dot A B = Inr (mat_mul A B)"
  by (simp add: np_dot_def)

lemma shape_mat_mul [simp]:
  "nrows (mat_mul A B) = nrows A" "ncols (mat_mul A B) = ncols B" "well_shaped (mat_mul A B)"
  by (simp_all add: mat_mul_def)

lemma shape_mat_add [simp]:
  "nrows (mat_add A B) = nrows A" "ncols (mat_add A B) = ncols A" "well_shaped (mat_add A B)"
  by (simp_all add: mat_add_def)

lemma shape_mat_sub [simp]:
  "nrows (mat_sub A B) = nrows A" "ncols (mat_sub A B) = ncols A" "well_shaped (mat_sub A B)"
  by (simp_all add: mat_sub_def)

lemma shape_scale [simp]:
  "nrows (scale s A) = nrows A" "ncols (scale s A) = ncols A" "well_shaped (scale s A)"
  by (simp_all add: scale_def)

lemma shape_ndarray_T [simp]:
  "nrows (ndarray_T A) = ncols A" "ncols (ndarray_T A) = nrows A" "well_shaped (ndarray_T A)"
  by (simp_all add: ndarray_T_def)

lemma shape_zeros_mat [simp]:
  "nrows (zeros_mat r c) = r" "ncols (zeros_mat r c) = c" "well_shaped (zeros_mat r c)"
  by (simp_all add: zeros_mat_def)

lemma shape_eye_mat [simp]:
  "nrows (eye_mat n) = n" "ncols (eye_mat n) = n" "well_shaped (eye_mat n)"
  by (simp_all add: eye_mat_def)

lemma shape_none_column [simp]:
  "nrows (none_column m) = nat m" "ncols (none_column m) = 1" "well_shaped (none_column m)"
  by (simp_all add: none_column_def)


subsection \<open>Names that do not resolve\<close>

lemma lookup_global_zeros: "lookup_global ''zeros'' = Inl (NameError ''zeros'')"
  by (simp add: lookup_global_def module_globals_def py_builtins_def)

lemma lookup_global_dot: "lookup_global ''dot'' = Inl (NameError ''dot'')"
  by (simp add: lookup_global_def module_globals_def py_builtins_def)

lemma np_getattr_reshape_z: "np_getattr ''reshape_z'' = Inl (AttributeError ''reshape_z'')"
  by (simp add: np_getattr_def numpy_namespace_def)

subsection \<open>Construction of a Kalman filter\<close>




subsection \<open>The update with the stored measurement matrix\<close>

text \<open>
  C5: a call of \<^verbatim>\<open>update\<close> with a measurement and with \<^verbatim>\<open>H\<close> left out always raises, and
  nothing has been computed by then: the object is as before the call, except that the
  three cached values are reset. The error is the \<^verbatim>\<open>AttributeError\<close> for
  \<^verbatim>\<open>np.reshape_z\<close>, unless expanding a scalar \<^verbatim>\<open>R\<close> has already failed on a negative
  \<open>dim_measurement\<close>.
\<close>

theorem update_default_H_raises:
  "update (Some z) R None self =
     (Inl (if (\<exists>v. R = Some v \<and> np_isscalar v) \<and> dim_measurement self < 0 then ValueError
           else AttributeError ''reshape_z''),
      self\<lparr>log_likelihood := None, likelihood := None, mahalanobis := None\<rparr>)"
  by (cases R) (auto simp: update_def tryS_def bindE_def resolve_noise_def np_eye_def
      np_getattr_reshape_z Let_def)

theorem update_default_H_raises_witness:
  "update (Some (NDArray 1 1 [[2]])) None None cv_filter =
     (Inl (AttributeError ''reshape_z''), cv_filter) \<and>
   update (Some (NDArray 1 1 [[2]])) (Some (Num 3)) None cv_filter =
     (Inl (AttributeError ''reshape_z''), cv_filter)"
  using update_default_H_raises [of "NDArray 1 1 [[2]]" None cv_filter]
    update_default_H_raises [of "NDArray 1 1 [[2]]" "Some (Num 3)" cv_filter]
  by (simp add: cv_filter_def)

subsection \<open>The residual of a candidate measurement\<close>

text \<open>
  C10 says that \<^verbatim>\<open>residual_of(z)\<close> returns \<open>z - H_measure \<cdot> x_prior\<close>. The method calls
  the unqualified name \<^verbatim>\<open>dot\<close>, which the module never binds, so every call raises
  \<^verbatim>\<open>NameError\<close> and returns nothing.
\<close>

theorem residual_of_raises:
  "residual_of self z = Inl (NameError ''dot'')"
  by (simp add: residual_of_def bindE_def lookup_global_dot)

subsection \<open>The fading-memory factor\<close>




subsection \<open>The prediction step\<close>

lemma resolve_noise_ok:
  assumes "0 \<le> d"
  shows "resolve_noise arg stored d = Inr (resolved_noise arg stored (nat d))"
proof (cases arg)
  case None
  then show ?thesis by (simp add: resolve_noise_def resolved_noise_def)
next
  case (Some v)
  then show ?thesis
    using assms by (cases v) (simp_all add: resolve_noise_def resolved_noise_def np_eye_def bindE_def)
qed

lemma shape_resolved_noise:
  assumes "noise_arg_ok arg n" "nrows stored = n" "ncols stored = n"
  shows "nrows (resolved_noise arg stored n) = n" "ncols (resolved_noise arg stored n) = n"
  using assms by (auto simp: noise_arg_ok_def resolved_noise_def split: option.splits pyval.splits)

lemma shape_predicted_state:
  "nrows (predicted_state F B u x) = nrows F"
  "control_ok B u n \<Longrightarrow> ncols x = 1 \<Longrightarrow> ncols (predicted_state F B u x) = 1"
  "well_shaped (predicted_state F B u x)"
  by (auto simp: predicted_state_def control_ok_def split: option.splits)

lemma shape_predicted_cov [simp]:
  "nrows (predicted_cov a F P Q) = nrows F" "ncols (predicted_cov a F P Q) = nrows F"
  "well_shaped (predicted_cov a F P Q)"
  by (simp_all add: predicted_cov_def)

lemma predict_state_step:
  assumes "ncols F = nrows x" "control_ok B u (nrows F)" "ncols x = 1"
  shows "(case (B, u) of
            (Some B, Some u) \<Rightarrow>
              bindE (np_dot F x) (\<lambda>Fx. bindE (np_dot B u) (\<lambda>Bu. np_add Fx Bu))
          | _ \<Rightarrow> np_dot F x) = Inr (predicted_state F B u x)"
  using assms
  by (auto simp: control_ok_def predicted_state_def bindE_def np_dot_conforming
      np_add_same_shape split: option.splits)

lemma predict_cov_step:
  assumes "nrows F = n" "ncols F = n" "nrows P = n" "ncols P = n" "nrows Q = n" "ncols Q = n"
  shows "bindE (np_dot F P) (\<lambda>FP. bindE (np_dot FP (ndarray_T F)) (\<lambda>FPFt.
           np_add (scale a FPFt) Q)) = Inr (predicted_cov a F P Q)"
  using assms
  by (simp add: bindE_def np_dot_conforming np_add_same_shape predicted_cov_def)


lemma predict_run:
  assumes shapes: "kalman_shapes self"
    and F: "case F of None \<Rightarrow> True | Some f \<Rightarrow> has_shape f (nat (dim_state self)) (nat (dim_state self))"
    and Q: "noise_arg_ok Q (nat (dim_state self))"
    and Bu: "control_ok (case B of None \<Rightarrow> B_control self | Some b \<Rightarrow> Some b) u (nat (dim_state self))"
  shows "predict u B F Q self =
     (let Fm = (case F of None \<Rightarrow> F_state_trans self | Some f \<Rightarrow> f);
          Bm = (case B of None \<Rightarrow> B_control self | Some b \<Rightarrow> Some b);
          Qm = resolved_noise Q (Q_proc_var self) (nat (dim_state self));
          x' = predicted_state Fm Bm u (x_state self);
          P' = predicted_cov (alpha_sq self) Fm (P_cov self) Qm
      in (Inr (), self\<lparr>x_state := x', P_cov := P', x_prior := x', P_prior := P'\<rparr>))"
proof -
  define n where "n = nat (dim_state self)"
  define Fm where "Fm = (case F of None \<Rightarrow> F_state_trans self | Some f \<Rightarrow> f)"
  define Bm where "Bm = (case B of None \<Rightarrow> B_control self | Some b \<Rightarrow> Some b)"
  define Qm where "Qm = resolved_noise Q (Q_proc_var self) n"
  define x' where "x' = predicted_state Fm Bm u (x_state self)"
  define P' where "P' = predicted_cov (alpha_sq self) Fm (P_cov self) Qm"
  from shapes have ds: "0 \<le> dim_state self"
    and x: "nrows (x_state self) = n" "ncols (x_state self) = 1"
    and P: "nrows (P_cov self) = n" "ncols (P_cov self) = n"
    and Qs: "nrows (Q_proc_var self) = n" "ncols (Q_proc_var self) = n"
    and Fs: "nrows (F_state_trans self) = n" "ncols (F_state_trans self) = n"
    and xp: "nrows (x_prior self) = n" "ncols (x_prior self) = 1"
    and Pp: "nrows (P_prior self) = n" "ncols (P_prior self) = n"
    by (simp_all add: kalman_shapes_def has_shape_def Let_def n_def)
  have Fm: "nrows Fm = n" "ncols Fm = n"
    using F Fs by (auto simp: Fm_def has_shape_def n_def split: option.splits)
  have Qm: "nrows Qm = n" "ncols Qm = n"
    unfolding Qm_def using Q Qs by (auto intro: shape_resolved_noise simp: n_def)
  have 1: "resolve_noise Q (Q_proc_var self) (dim_state self) = Inr Qm"
    unfolding Qm_def n_def by (rule resolve_noise_ok [OF ds])
  have 2: "(case (Bm, u) of
              (Some B, Some u) \<Rightarrow>
                bindE (np_dot Fm (x_state self)) (\<lambda>Fx. bindE (np_dot B u) (\<lambda>Bu. np_add Fx Bu))
            | _ \<Rightarrow> np_dot Fm (x_state self)) = Inr x'"
    unfolding x'_def using Bu Fm x
    by (intro predict_state_step) (simp_all add: Bm_def n_def)
  have 3: "bindE (np_dot Fm (P_cov self)) (\<lambda>FP. bindE (np_dot FP (ndarray_T Fm)) (\<lambda>FPFt.
             np_add (scale (alpha_sq self) FPFt) Qm)) = Inr P'"
    unfolding P'_def using Fm P Qm by (intro predict_cov_step [where n = n]) simp_all
  have "control_ok Bm u n"
    using Bu by (simp add: Bm_def n_def)
  then have x'shape: "nrows x' = n" "ncols x' = 1" "well_shaped x'"
    unfolding x'_def using Fm x
    by (simp_all only: shape_predicted_state)
  have 4: "np_copyto (x_prior self) x' = Inr x'"
    using x'shape xp by (intro np_copyto_same_shape) simp_all
  have 5: "np_copyto (P_prior self) P' = Inr P'"
    using Pp Fm by (intro np_copyto_same_shape) (simp_all add: P'_def)
  have "predict u B F Q self =
          (Inr (), self\<lparr>x_state := x', P_cov := P', x_prior := x', P_prior := P'\<rparr>)"
    using 2 unfolding predict_def Let_def
    apply (fold Fm_def Bm_def)
    apply (simp add: 1 3 4 5 tryS_def)
    done
  then show ?thesis
    by (simp add: Let_def Fm_def Bm_def Qm_def x'_def P'_def n_def)
qed

text \<open>
  C2: on a filter whose arrays have the shapes of \<^verbatim>\<open>_init_arrays\<close>, with arguments of
  the documented dimensions, \<^verbatim>\<open>predict(u, B, F, Q)\<close> returns normally; an argument left
  out is the stored matrix and a scalar \<^verbatim>\<open>Q\<close> is \<open>Q\<close> times the identity; the new
  \<open>x_state\<close> is \<open>F\<cdot>x + B\<cdot>u\<close> when a control matrix and a control vector are both at
  hand and \<open>F\<cdot>x\<close> otherwise, the new \<open>P_cov\<close> is \<open>alpha_sq \<cdot> F\<cdot>P\<cdot>F\<^sup>T + Q\<close>, and
  \<open>x_prior\<close> and \<open>P_prior\<close> hold the same two values; no other attribute changes.
\<close>

theorem predict_equations:
  assumes shapes: "kalman_shapes self"
    and F: "case F of None \<Rightarrow> True | Some f \<Rightarrow> has_shape f (nat (dim_state self)) (nat (dim_state self))"
    and Q: "noise_arg_ok Q (nat (dim_state self))"
    and Bu: "control_ok (case B of None \<Rightarrow> B_control self | Some b \<Rightarrow> Some b) u (nat (dim_state self))"
  shows "predict u B F Q self =
     (let Fm = (case F of None \<Rightarrow> F_state_trans self | Some f \<Rightarrow> f);
          Bm = (case B of None \<Rightarrow> B_control self | Some b \<Rightarrow> Some b);
          Qm = resolved_noise Q (Q_proc_var self) (nat (dim_state self));
          x' = predicted_state Fm Bm u (x_state self);
          P' = predicted_cov (alpha_sq self) Fm (P_cov self) Qm
      in (Inr (), self\<lparr>x_state := x', P_cov := P', x_prior := x', P_prior := P'\<rparr>))"
  by (rule predict_run [OF shapes F Q Bu])

theorem predict_equations_witness:
  "kalman_shapes cv_filter \<and>
   noise_arg_ok (Some (Num 2)) (nat (dim_state cv_filter)) \<and>
   control_ok (Some (NDArray 2 1 [[1 / 2], [1]])) (Some (NDArray 1 1 [[2]])) (nat (dim_state cv_filter)) \<and>
   predict (Some (NDArray 1 1 [[2]])) (Some (NDArray 2 1 [[1 / 2], [1]])) None (Some (Num 2)) cv_filter =
     (Inr (), cv_filter\<lparr>x_state := NDArray 2 1 [[2], [3]],
                          P_cov := NDArray 2 2 [[4, 1], [1, 3]],
                          x_prior := NDArray 2 1 [[2], [3]],
                          P_prior := NDArray 2 2 [[4, 1], [1, 3]]\<rparr>)"
proof -
  have shapes: "kalman_shapes cv_filter"
    by code_simp
  have F: "case None of None \<Rightarrow> True
           | Some f \<Rightarrow> has_shape f (nat (dim_state cv_filter)) (nat (dim_state cv_filter))"
    by simp
  have Q: "noise_arg_ok (Some (Num 2)) (nat (dim_state cv_filter))"
    by code_simp
  have Bu: "control_ok (case Some (NDArray 2 1 [[1 / 2], [1]]) of None \<Rightarrow> B_control cv_filter | Some b \<Rightarrow> Some b)
              (Some (NDArray 1 1 [[2]])) (nat (dim_state cv_filter))"
    by code_simp
  have Bu': "control_ok (Some (NDArray 2 1 [[1 / 2], [1]])) (Some (NDArray 1 1 [[2]])) (nat (dim_state cv_filter))"
    using Bu by simp
  have run: "predict (Some (NDArray 1 1 [[2]])) (Some (NDArray 2 1 [[1 / 2], [1]])) None (Some (Num 2)) cv_filter =
     (Inr (), cv_filter\<lparr>x_state := NDArray 2 1 [[2], [3]],
                          P_cov := NDArray 2 2 [[4, 1], [1, 3]],
                          x_prior := NDArray 2 1 [[2], [3]],
                          P_prior := NDArray 2 2 [[4, 1], [1, 3]]\<rparr>)"
    unfolding predict_equations [OF shapes F Q Bu] by code_simp
  show ?thesis
    using shapes Q Bu' run by blast
qed

subsection \<open>The update step\<close>

lemma linalg_inv_shape:
  assumes "linalg_inv S = Inr SI"
  shows "nrows SI = nrows S" "ncols SI = nrows S" "well_shaped SI" "ncols S = nrows S"
  using assms by (auto simp: linalg_inv_def split: if_splits)

lemma np_copyto_conv_same_shape:
  assumes "nrows src = nrows dst" "ncols src = ncols dst"
  shows "np_copyto_conv Some dst src = Inr (measured src)"
proof -
  have "tabulate (nrows src) (ncols src) (\<lambda>i j. Some (bentry src i j))
      = tabulate (nrows src) (ncols src) (\<lambda>i j. Some (entry src i j))"
    by (rule tabulate_cong) (simp add: bentry_entry)
  then show ?thesis
    using assms by (simp add: np_copyto_conv_def measured_def)
qed

lemma update_None_eq:
  assumes shapes: "kalman_shapes self"
  shows "update None R H self =
     (Inr (), self\<lparr>log_likelihood := None, likelihood := None, mahalanobis := None,
                   z_measure := none_column (dim_measurement self),
                   x_post := x_state self, P_post := P_cov self,
                   y_resid := zeros_mat (nat (dim_measurement self)) 1\<rparr>)"
proof -
  from shapes have dm: "0 \<le> dim_measurement self"
    and x: "well_shaped (x_state self)" "nrows (x_state self) = nrows (x_post self)"
      "ncols (x_state self) = ncols (x_post self)"
    and P: "well_shaped (P_cov self)" "nrows (P_cov self) = nrows (P_post self)"
      "ncols (P_cov self) = ncols (P_post self)"
    by (simp_all add: kalman_shapes_def has_shape_def Let_def)
  have 1: "np_copyto (x_post self) (x_state self) = Inr (x_state self)"
    using x by (intro np_copyto_same_shape)
  have 2: "np_copyto (P_post self) (P_cov self) = Inr (P_cov self)"
    using P by (intro np_copyto_same_shape)
  have 3: "np_zeros (dim_measurement self, 1) = Inr (zeros_mat (nat (dim_measurement self)) 1)"
    using dm by (simp add: np_zeros_def)
  show ?thesis
    by (simp add: update_def Let_def tryS_def 1 2 3)
qed


text \<open>
  C4: \<^verbatim>\<open>update\<close> with \<^verbatim>\<open>z = None\<close> returns normally, leaves \<open>x_state\<close> and \<open>P_cov\<close> as
  they are, sets \<open>z_measure\<close> to the column of \<^verbatim>\<open>None\<close>, copies \<open>x_state\<close> into \<open>x_post\<close>
  and \<open>P_cov\<close> into \<open>P_post\<close>, and sets the residual to the zero column; apart from the
  three reset caches nothing else changes.
\<close>

theorem update_without_measurement:
  assumes "kalman_shapes self"
  shows "fst (update None R H self) = Inr () \<and>
     x_state (snd (update None R H self)) = x_state self \<and>
     P_cov (snd (update None R H self)) = P_cov self \<and>
     z_measure (snd (update None R H self)) = none_column (dim_measurement self) \<and>
     x_post (snd (update None R H self)) = x_state self \<and>
     P_post (snd (update None R H self)) = P_cov self \<and>
     y_resid (snd (update None R H self)) = zeros_mat (nat (dim_measurement self)) 1 \<and>
     snd (update None R H self) =
       self\<lparr>log_likelihood := None, likelihood := None, mahalanobis := None,
            z_measure := none_column (dim_measurement self),
            x_post := x_state self, P_post := P_cov self,
            y_resid := zeros_mat (nat (dim_measurement self)) 1\<rparr>"
  by (simp add: update_None_eq [OF assms])


theorem update_without_measurement_witness:
  "kalman_shapes (snd (predict None None None None cv_filter)) \<and>
   fst (update None None None (snd (predict None None None None cv_filter))) = Inr () \<and>
   x_state (snd (update None None None (snd (predict None None None None cv_filter))))
     = NDArray 2 1 [[1], [1]] \<and>
   x_post (snd (predict None None None None cv_filter)) = NDArray 2 1 [[0], [1]] \<and>
   x_post (snd (update None None None (snd (predict None None None None cv_filter))))
     = NDArray 2 1 [[1], [1]] \<and>
   P_post (snd (update None None None (snd (predict None None None None cv_filter))))
     = NDArray 2 2 [[3, 1], [1, 2]] \<and>
   y_resid (snd (update None None None (snd (predict None None None None cv_filter))))
     = NDArray 1 1 [[0]] \<and>
   z_measure (snd (update None None None (snd (predict None None None None cv_filter))))
     = NDArray 1 1 [[None]]"
proof -
  have shapes: "kalman_shapes (snd (predict None None None None cv_filter))"
    by code_simp
  have x: "x_state (snd (predict None None None None cv_filter)) = NDArray 2 1 [[1], [1]]"
    and P: "P_cov (snd (predict None None None None cv_filter)) = NDArray 2 2 [[3, 1], [1, 2]]"
    and xp: "x_post (snd (predict None None None None cv_filter)) = NDArray 2 1 [[0], [1]]"
    and m: "dim_measurement (snd (predict None None None None cv_filter)) = 1"
    by code_simp+
  have z: "none_column 1 = NDArray 1 1 [[None]]" and y: "zeros_mat (nat 1) 1 = NDArray 1 1 [[0]]"
    by code_simp+
  show ?thesis
    using shapes update_without_measurement [OF shapes, of None None] x P xp m z y
    by simp
qed

lemma update_run:
  assumes shapes: "kalman_shapes self"
    and z: "nrows z = nat (dim_measurement self)" "ncols z = 1"
    and H: "nrows H = nat (dim_measurement self)" "ncols H = nat (dim_state self)"
    and R: "noise_arg_ok R (nat (dim_measurement self))"
    and inv: "linalg_inv (innovation_cov H (P_cov self)
                 (resolved_noise R (R_measure_var self) (nat (dim_measurement self)))) = Inr SI"
  shows "update (Some z) R (Some H) self =
     (let Rm = resolved_noise R (R_measure_var self) (nat (dim_measurement self));
          y = residual z H (x_state self);
          S = innovation_cov H (P_cov self) Rm;
          K = kalman_gain (P_cov self) H SI;
          x' = mat_add (x_state self) (mat_mul K y);
          P' = joseph_cov (nat (dim_state self)) K H (P_cov self) Rm
      in (Inr (), self\<lparr>log_likelihood := None, likelihood := None, mahalanobis := None,
                        y_resid := y, S_sys := S, SI_sys := SI, K_gain := K,
                        x_state := x', P_cov := P', z_measure := measured z,
                        x_post := x', P_post := P'\<rparr>))"
proof -
  define n where "n = nat (dim_state self)"
  define m where "m = nat (dim_measurement self)"
  define Rm where "Rm = resolved_noise R (R_measure_var self) m"
  define y where "y = residual z H (x_state self)"
  define PHT where "PHT = mat_mul (P_cov self) (ndarray_T H)"
  define S where "S = innovation_cov H (P_cov self) Rm"
  define K where "K = kalman_gain (P_cov self) H SI"
  define x' where "x' = mat_add (x_state self) (mat_mul K y)"
  define I_KH where "I_KH = mat_sub (eye_mat n) (mat_mul K H)"
  define P' where "P' = joseph_cov n K H (P_cov self) Rm"
  from shapes have dm: "0 \<le> dim_measurement self"
    and x: "nrows (x_state self) = n" "ncols (x_state self) = 1"
    and P: "nrows (P_cov self) = n" "ncols (P_cov self) = n"
    and Rs: "nrows (R_measure_var self) = m" "ncols (R_measure_var self) = m"
    and zm: "nrows (z_measure self) = m" "ncols (z_measure self) = 1"
    and I: "I_eye self = eye_mat n"
    and xp: "nrows (x_post self) = n" "ncols (x_post self) = 1"
    and Pp: "nrows (P_post self) = n" "ncols (P_post self) = n"
    by (simp_all add: kalman_shapes_def has_shape_def Let_def n_def m_def)
  have Hs: "nrows H = m" "ncols H = n" and zs: "nrows z = m" "ncols z = 1"
    using H z by (simp_all add: n_def m_def)
  have Rm: "nrows Rm = m" "ncols Rm = m"
    unfolding Rm_def using R Rs by (auto intro: shape_resolved_noise simp: m_def)
  have inv': "linalg_inv S = Inr SI"
    using inv by (simp add: S_def Rm_def m_def)
  have Ss: "nrows S = m" "ncols S = m"
    by (simp_all add: S_def innovation_cov_def Hs)
  have SIs: "nrows SI = m" "ncols SI = m"
    using linalg_inv_shape [OF inv'] Ss by simp_all
  have Ks: "nrows K = n" "ncols K = m"
    by (simp_all add: K_def kalman_gain_def P SIs)
  have ys: "nrows y = m" "ncols y = 1"
    by (simp_all add: y_def residual_def zs)
  have x's: "nrows x' = n" "ncols x' = 1" "well_shaped x'"
    by (simp_all add: x'_def x)
  have IKHs: "nrows I_KH = n" "ncols I_KH = n"
    by (simp_all add: I_KH_def)
  have P's: "nrows P' = n" "ncols P' = n" "well_shaped P'"
    by (simp_all add: P'_def joseph_cov_def Let_def IKHs [unfolded I_KH_def])
  have 1: "resolve_noise R (R_measure_var self) (dim_measurement self) = Inr Rm"
    unfolding Rm_def m_def by (rule resolve_noise_ok [OF dm])
  have 2: "bindE (np_dot H (x_state self)) (\<lambda>Hx. np_sub z Hx) = Inr y"
    by (simp add: bindE_def np_dot_conforming np_sub_same_shape Hs x zs y_def residual_def)
  have 3: "np_dot (P_cov self) (ndarray_T H) = Inr PHT"
    by (simp add: np_dot_conforming P Hs PHT_def)
  have 4: "bindE (np_dot H PHT) (\<lambda>HPHT. np_add HPHT Rm) = Inr S"
    by (simp add: bindE_def np_dot_conforming np_add_same_shape Hs P Rm PHT_def S_def
        innovation_cov_def)
  have 5: "np_dot PHT SI = Inr K"
    by (simp add: np_dot_conforming PHT_def SIs Hs K_def kalman_gain_def)
  have 6: "bindE (np_dot K y) (\<lambda>Ky. np_add (x_state self) Ky) = Inr x'"
    by (simp add: bindE_def np_dot_conforming np_add_same_shape Ks ys x x'_def)
  have 7: "bindE (np_dot K H) (\<lambda>KH. np_sub (eye_mat n) KH) = Inr I_KH"
    by (simp add: bindE_def np_dot_conforming np_sub_same_shape Ks Hs I_KH_def)
  have 8: "bindE (np_dot I_KH (P_cov self)) (\<lambda>A.
           bindE (np_dot A (ndarray_T I_KH)) (\<lambda>APA.
           bindE (np_dot K Rm) (\<lambda>KR.
           bindE (np_dot KR (ndarray_T K)) (\<lambda>KRK.
           np_add APA KRK)))) = Inr P'"
    by (simp add: bindE_def np_dot_conforming np_add_same_shape IKHs P Ks Rm P'_def
        joseph_cov_def Let_def I_KH_def [symmetric])
  have 9: "np_copyto_conv Some (z_measure self) z = Inr (measured z)"
    using zs zm by (intro np_copyto_conv_same_shape) simp_all
  have 10: "np_copyto (x_post self) x' = Inr x'"
    using x's xp by (intro np_copyto_same_shape) simp_all
  have 11: "np_copyto (P_post self) P' = Inr P'"
    using P's Pp by (intro np_copyto_same_shape) simp_all
  have "update (Some z) R (Some H) self =
          (Inr (), self\<lparr>log_likelihood := None, likelihood := None, mahalanobis := None,
                        y_resid := y, S_sys := S, SI_sys := SI, K_gain := K,
                        x_state := x', P_cov := P', z_measure := measured z,
                        x_post := x', P_post := P'\<rparr>)"
    by (simp add: update_def Let_def tryS_def I 1 2 3 4 inv' 5 6 7 8 9 10 11)
  then show ?thesis
    by (simp add: Let_def Rm_def y_def S_def K_def x'_def P'_def n_def m_def)
qed





subsection \<open>The history buffer of the IIR filter\<close>

lemma maxlen_deque_append [simp]: "maxlen (deque_append x d) = maxlen d"
  by (simp add: deque_append_def Let_def)

lemma items_deque_append:
  "items (deque_append x d) =
     (if maxlen d < Suc (length (items d)) then tl (items d @ [x]) else items d @ [x])"
  by (simp add: deque_append_def Let_def)

lemma deque_append_window:
  assumes "items d = drop (length zs - maxlen d) zs"
  shows "items (deque_append x d) = drop (length (zs @ [x]) - maxlen d) (zs @ [x])"
proof (cases "length zs < maxlen d")
  case True
  then show ?thesis
    using assms by (simp add: items_deque_append)
next
  case False
  define k where "k = length zs - maxlen d"
  have k: "k \<le> length zs" "Suc (length zs) - maxlen d = Suc k" "length zs - k = maxlen d"
    using False by (simp_all add: k_def)
  have len: "length (items d) = maxlen d"
    using assms k by (simp add: k_def)
  have tl1: "\<And>ys::'a list. tl ys = drop (Suc 0) ys"
    by (simp add: drop_Suc)
  have "items d @ [x] = drop k (zs @ [x])"
    using assms k(1) by (simp add: k_def [symmetric])
  then have "tl (items d @ [x]) = drop (Suc 0) (drop k (zs @ [x]))"
    by (simp only: tl1)
  also have "\<dots> = drop (Suc k) (zs @ [x])"
    by (simp only: drop_drop) simp
  finally have "tl (items d @ [x]) = drop (Suc (length zs) - maxlen d) (zs @ [x])"
    by (simp only: k(2))
  then show ?thesis
    using len by (simp add: items_deque_append)
qed

lemma process_frame [simp]:
  "coef_type (snd (Filter_IIR_process signal x f)) = coef_type f"
  "coefs (snd (Filter_IIR_process signal x f)) = coefs f"
  "axis (snd (Filter_IIR_process signal x f)) = axis f"
  "ftype (snd (Filter_IIR_process signal x f)) = ftype f"
  "buffer (snd (Filter_IIR_process signal x f)) = deque_append x (buffer f)"
  by (auto simp: Filter_IIR_process_def Let_def tryS_def split: sum.splits)

lemma process_result:
  "fst (Filter_IIR_process signal x f)
     = filter_window signal f (items (deque_append x (buffer f)))"
  by (auto simp: Filter_IIR_process_def filter_window_def Let_def tryS_def bindE_def
      split: sum.splits)


lemma Filter_IIR_init_Inr:
  assumes "Filter_IIR_init signal ft bs ct ax kw = Inr f"
  shows "0 \<le> bs" "buffer f = \<lparr>maxlen = nat bs, items = []\<rparr>" "coef_type f = ct" "axis f = ax"
    "ftype f = ft" "iirfilter signal ft ct kw = Inr (coefs f)"
  using assms
  by (auto simp: Filter_IIR_init_def Transform_init_def bindE_def deque_new_def
      split: sum.splits if_splits)

lemma feed_snoc:
  "feed signal (xs @ [x]) f = snd (Filter_IIR_process signal x (feed signal xs f))"
  by (simp add: feed_def)

lemma feed_frame [simp]:
  "coef_type (feed signal xs f) = coef_type f"
  "coefs (feed signal xs f) = coefs f"
  "axis (feed signal xs f) = axis f"
  "maxlen (buffer (feed signal xs f)) = maxlen (buffer f)"
proof (induction xs rule: rev_induct)
  case Nil
  show "coef_type (feed signal [] f) = coef_type f" "coefs (feed signal [] f) = coefs f"
    "axis (feed signal [] f) = axis f" "maxlen (buffer (feed signal [] f)) = maxlen (buffer f)"
    by (simp_all add: feed_def)
next
  case (snoc x xs)
  show "coef_type (feed signal (xs @ [x]) f) = coef_type f"
    "coefs (feed signal (xs @ [x]) f) = coefs f"
    "axis (feed signal (xs @ [x]) f) = axis f"
    "maxlen (buffer (feed signal (xs @ [x]) f)) = maxlen (buffer f)"
    by (simp_all add: feed_snoc snoc.IH)
qed

lemma feed_items:
  assumes "items (buffer f) = []"
  shows "items (buffer (feed signal xs f)) = drop (length xs - maxlen (buffer f)) xs"
proof (induction xs rule: rev_induct)
  case Nil
  then show ?case using assms by (simp add: feed_def)
next
  case (snoc x xs)
  have "items (deque_append x (buffer (feed signal xs f)))
          = drop (length (xs @ [x]) - maxlen (buffer (feed signal xs f))) (xs @ [x])"
    by (rule deque_append_window) (simp add: snoc.IH)
  then show ?case
    by (simp add: feed_snoc)
qed

lemma filter_window_cong:
  assumes "coef_type f = coef_type g" "coefs f = coefs g" "axis f = axis g"
  shows "filter_window signal f w = filter_window signal g w"
  using assms by (simp add: filter_window_def)

text \<open>
  C7: a filter constructed with capacity \<open>buffer_size\<close> never holds more than
  \<open>buffer_size\<close> samples, whatever is fed to it: its buffer is the last \<open>buffer_size\<close>
  samples fed. The outcome of a \<^verbatim>\<open>process\<close> call (the filtered value, or the error
  raised) is that of filtering only the last \<open>buffer_size\<close> samples, the new one included;
  older samples have no influence.
\<close>

theorem buffer_bounded_and_windowed:
  assumes "Filter_IIR_init signal ft buffer_size ct ax kwargs = Inr f0"
  shows "length (items (buffer (feed signal xs f0))) \<le> nat buffer_size \<and>
     items (buffer (feed signal xs f0)) = drop (length xs - nat buffer_size) xs \<and>
     fst (Filter_IIR_process signal x (feed signal xs f0))
       = filter_window signal f0 (drop (length (xs @ [x]) - nat buffer_size) (xs @ [x]))"
proof -
  have buf: "buffer f0 = \<lparr>maxlen = nat buffer_size, items = []\<rparr>"
    by (rule Filter_IIR_init_Inr(2) [OF assms])
  then have empty: "items (buffer f0) = []" and cap: "maxlen (buffer f0) = nat buffer_size"
    by simp_all
  have items: "items (buffer (feed signal xs f0)) = drop (length xs - nat buffer_size) xs"
    using feed_items [OF empty, of signal xs] cap by simp
  have "items (deque_append x (buffer (feed signal xs f0)))
          = drop (length (xs @ [x]) - maxlen (buffer (feed signal xs f0))) (xs @ [x])"
    by (rule deque_append_window) (simp add: items cap)
  then have "fst (Filter_IIR_process signal x (feed signal xs f0))
       = filter_window signal (feed signal xs f0)
           (drop (length (xs @ [x]) - nat buffer_size) (xs @ [x]))"
    by (simp add: process_result cap)
  also have "\<dots> = filter_window signal f0 (drop (length (xs @ [x]) - nat buffer_size) (xs @ [x]))"
    by (rule filter_window_cong) simp_all
  finally show ?thesis
    using items by simp
qed

theorem buffer_bounded_and_windowed_witness:
  "Filter_IIR_init scipy_ref ''butter'' 2 ''ba'' 0 butter1_kwargs =
     Inr \<lparr>ftype = ''butter'', coef_type = ''ba'', axis = 0,
          coefs = Tuple [Vector [1 / 2, 1 / 2], Vector [1, 0]],
          buffer = \<lparr>maxlen = 2, items = []\<rparr>\<rparr> \<and>
   items (buffer (feed scipy_ref [1, 2, 3]
      \<lparr>ftype = ''butter'', coef_type = ''ba'', axis = 0,
       coefs = Tuple [Vector [1 / 2, 1 / 2], Vector [1, 0]],
       buffer = \<lparr>maxlen = 2, items = []\<rparr>\<rparr>)) = [2, 3] \<and>
   fst (Filter_IIR_process scipy_ref 7 (feed scipy_ref [1, 2, 3]
      \<lparr>ftype = ''butter'', coef_type = ''ba'', axis = 0,
       coefs = Tuple [Vector [1 / 2, 1 / 2], Vector [1, 0]],
       buffer = \<lparr>maxlen = 2, items = []\<rparr>\<rparr>)) = Inr (Some 5)"
proof -
  define f0 :: "(coefs, real) filter_iir" where
    "f0 = \<lparr>ftype = ''butter'', coef_type = ''ba'', axis = 0,
           coefs = Tuple [Vector [1 / 2, 1 / 2], Vector [1, 0]],
           buffer = \<lparr>maxlen = 2, items = []\<rparr>\<rparr>"
  have init: "Filter_IIR_init scipy_ref ''butter'' 2 ''ba'' 0 butter1_kwargs = Inr f0"
    unfolding f0_def by code_simp
  have window: "filter_window scipy_ref f0 (drop (length ([1, 2, 3] @ [7]) - nat 2) ([1, 2, 3] @ [7]))
                  = Inr (Some 5)"
    unfolding f0_def by code_simp
  have kept: "drop (length [1, 2, 3 :: real] - nat 2) [1, 2, 3] = [2, 3 :: real]"
    by code_simp
  from buffer_bounded_and_windowed [OF init, of "[1, 2, 3]" 7] window kept
  have "items (buffer (feed scipy_ref [1, 2, 3] f0)) = [2, 3]"
    and "fst (Filter_IIR_process scipy_ref 7 (feed scipy_ref [1, 2, 3] f0)) = Inr (Some 5)"
    by simp_all
  with init show ?thesis
    unfolding f0_def by blast
qed


subsection \<open>The coefficient form\<close>






subsection \<open>A perfect observation of a system at rest\<close>

lemma sum_list_delta_left:
  "sum_list (map (\<lambda>k. (if i = k then 1 else 0) * f k) [0..<n]) = (if i < n then f i else (0::real))"
  by (induction n) (auto simp: less_Suc_eq)

lemma sum_list_delta_right:
  "sum_list (map (\<lambda>k. f k * (if k = j then 1 else 0)) [0..<n]) = (if j < n then f j else (0::real))"
  by (induction n) (auto simp: less_Suc_eq)

lemma sum_list_zero: "sum_list (map (\<lambda>k. 0) [0..<n]) = (0::real)"
  by (induction n) auto

lemma mat_mul_eye_left:
  assumes "well_shaped A" "nrows A = n"
  shows "mat_mul (eye_mat n) A = A"
proof (rule ndarray_eqI)
  fix i j
  assume "i < nrows (mat_mul (eye_mat n) A)" "j < ncols (mat_mul (eye_mat n) A)"
  then have ij: "i < n" "j < ncols A"
    by simp_all
  have "sum_list (map (\<lambda>k. entry (eye_mat n) i k * entry A k j) [0..<n])
      = sum_list (map (\<lambda>k. (if i = k then 1 else 0) * entry A k j) [0..<n])"
    using ij by (intro arg_cong [where f = sum_list] map_cong) (simp_all add: eye_mat_def)
  then show "entry (mat_mul (eye_mat n) A) i j = entry A i j"
    using ij by (simp add: mat_mul_def sum_list_delta_left)
qed (simp_all add: assms)

lemma mat_mul_eye_right:
  assumes "well_shaped A" "ncols A = n"
  shows "mat_mul A (eye_mat n) = A"
proof (rule ndarray_eqI)
  fix i j
  assume "i < nrows (mat_mul A (eye_mat n))" "j < ncols (mat_mul A (eye_mat n))"
  then have ij: "i < nrows A" "j < n"
    by simp_all
  have "sum_list (map (\<lambda>k. entry A i k * entry (eye_mat n) k j) [0..<n])
      = sum_list (map (\<lambda>k. entry A i k * (if k = j then 1 else 0)) [0..<n])"
    using ij by (intro arg_cong [where f = sum_list] map_cong) (simp_all add: eye_mat_def)
  then show "entry (mat_mul A (eye_mat n)) i j = entry A i j"
    using ij assms(2) by (simp add: mat_mul_def sum_list_delta_right)
qed (simp_all add: assms)

lemma ndarray_T_eye [simp]: "ndarray_T (eye_mat n) = eye_mat n"
proof -
  have "ndarray_T (eye_mat n) = tabulate n n (\<lambda>i j. entry (eye_mat n) j i)"
    by (simp add: ndarray_T_def)
  also have "\<dots> = tabulate n n (\<lambda>i j. if i = j then 1 else 0)"
    by (rule tabulate_cong) (auto simp: eye_mat_def)
  also have "\<dots> = eye_mat n"
    by (simp add: eye_mat_def)
  finally show ?thesis .
qed

lemma ndarray_T_zeros [simp]: "ndarray_T (zeros_mat r c) = zeros_mat c r"
proof -
  have "ndarray_T (zeros_mat r c) = tabulate c r (\<lambda>i j. entry (zeros_mat r c) j i)"
    by (simp add: ndarray_T_def)
  also have "\<dots> = tabulate c r (\<lambda>i j. 0)"
    by (rule tabulate_cong) (simp add: zeros_mat_def)
  also have "\<dots> = zeros_mat c r"
    by (simp add: zeros_mat_def)
  finally show ?thesis .
qed

lemma mat_add_zeros_right:
  assumes "well_shaped A" "nrows A = r" "ncols A = c"
  shows "mat_add A (zeros_mat r c) = A"
proof (rule ndarray_eqI)
  fix i j
  assume "i < nrows (mat_add A (zeros_mat r c))" "j < ncols (mat_add A (zeros_mat r c))"
  then show "entry (mat_add A (zeros_mat r c)) i j = entry A i j"
    using assms by (simp add: mat_add_def zeros_mat_def)
qed (simp_all add: assms)

lemma mat_sub_self: "mat_sub A A = zeros_mat (nrows A) (ncols A)"
  unfolding mat_sub_def zeros_mat_def by (rule tabulate_cong) simp

lemma mat_mul_zeros_left: "mat_mul (zeros_mat r k) A = zeros_mat r (ncols A)"
proof -
  have "tabulate r (ncols A) (\<lambda>i j. sum_list (map (\<lambda>l. entry (zeros_mat r k) i l * entry A l j) [0..<k]))
      = tabulate r (ncols A) (\<lambda>i j. 0)"
  proof (rule tabulate_cong)
    fix i j
    assume i: "i < r"
    have "map (\<lambda>l. entry (zeros_mat r k) i l * entry A l j) [0..<k] = map (\<lambda>l. 0) [0..<k]"
      using i by (intro map_cong) (simp_all add: zeros_mat_def)
    then show "sum_list (map (\<lambda>l. entry (zeros_mat r k) i l * entry A l j) [0..<k]) = 0"
      by (simp only: sum_list_zero)
  qed
  then show ?thesis
    by (simp add: mat_mul_def) (simp add: zeros_mat_def)
qed

lemma mat_mul_zeros_right:
  assumes "ncols A = k"
  shows "mat_mul A (zeros_mat k c) = zeros_mat (nrows A) c"
proof -
  have "tabulate (nrows A) c (\<lambda>i j. sum_list (map (\<lambda>l. entry A i l * entry (zeros_mat k c) l j) [0..<k]))
      = tabulate (nrows A) c (\<lambda>i j. 0)"
  proof (rule tabulate_cong)
    fix i j
    assume j: "j < c"
    have "map (\<lambda>l. entry A i l * entry (zeros_mat k c) l j) [0..<k] = map (\<lambda>l. 0) [0..<k]"
      using j by (intro map_cong) (simp_all add: zeros_mat_def)
    then show "sum_list (map (\<lambda>l. entry A i l * entry (zeros_mat k c) l j) [0..<k]) = 0"
      by (simp only: sum_list_zero)
  qed
  then show ?thesis
    using assms by (simp add: mat_mul_def) (simp add: zeros_mat_def)
qed

lemma mat_add_zeros_zeros [simp]: "mat_add (zeros_mat r c) (zeros_mat r c) = zeros_mat r c"
  by (rule mat_add_zeros_right) simp_all







end
